theory Spec2Isabelle
  imports Complex_Main
begin

section \<open>The notebook's parameters\<close>

text \<open>
  \<^verbatim>\<open>max_features = 10000\<close> and \<^verbatim>\<open>maxlen = 200\<close>, the two parameters of the
  data-loading cell.
\<close>

definition max_features :: nat where
  "max_features = 10000"

definition maxlen :: nat where
  "maxlen = 200"

section \<open>Python's string operations used by \<open>predict_sentiment\<close>\<close>

text \<open>
  A Python \<open>str\<close> is a sequence of code points. The model keeps the code points below 256
  (one \<^typ>\<open>char\<close> each), on which \<^verbatim>\<open>str.isspace\<close> and \<^verbatim>\<open>str.lower\<close> are as
  follows: the white space is U+0009..U+000D, U+001C..U+0020, U+0085 and U+00A0; the letters
  with a lower-case partner are A..Z and U+00C0..U+00DE without U+00D7, each 32 below its
  partner.
\<close>

definition isspace :: "char \<Rightarrow> bool" where
  "isspace c =
     (let n = (of_char c :: nat)
      in (9 \<le> n \<and> n \<le> 13) \<or> (28 \<le> n \<and> n \<le> 32) \<or> n = 133 \<or> n = 160)"

definition isupper :: "char \<Rightarrow> bool" where
  "isupper c =
     (let n = (of_char c :: nat)
      in (65 \<le> n \<and> n \<le> 90) \<or> (192 \<le> n \<and> n \<le> 222 \<and> n \<noteq> 215))"

definition lower_char :: "char \<Rightarrow> char" where
  "lower_char c = (if isupper c then char_of ((of_char c :: nat) + 32) else c)"

text \<open>\<^verbatim>\<open>text.lower()\<close>\<close>

definition str_lower :: "string \<Rightarrow> string" where
  "str_lower text = map lower_char text"

text \<open>
  \<^verbatim>\<open>s.split()\<close> without a separator: runs of white space separate the words, and no
  empty word is produced. The first argument is the word being read.
\<close>

fun split_from :: "string \<Rightarrow> string \<Rightarrow> string list" where
  "split_from w [] = (if w = [] then [] else [w])"
| "split_from w (c # cs) =
     (if isspace c then (if w = [] then split_from [] cs else w # split_from [] cs)
      else split_from (w @ [c]) cs)"

definition str_split :: "string \<Rightarrow> string list" where
  "str_split s = split_from [] s"

section \<open>The word index\<close>

text \<open>
  \<^verbatim>\<open>imdb.get_word_index()\<close> downloads a dictionary from words to frequency ranks; it is
  the parameter \<open>raw\<close>. The notebook shifts every rank by 3 and then stores the four
  reserved entries:
  \<^verbatim>\<open>
  word_index = {k:(v+3) for k,v in word_index.items()}
  word_index["<PAD>"] = 0
  word_index["<START>"] = 1
  word_index["<UNK>"] = 2  # Unknown
  word_index["<UNUSED>"] = 3
  \<close>
\<close>

definition word_index :: "(string \<rightharpoonup> int) \<Rightarrow> (string \<rightharpoonup> int)" where
  "word_index raw =
     (\<lambda>k. map_option (\<lambda>v. v + 3) (raw k))
       (''<PAD>'' \<mapsto> 0, ''<START>'' \<mapsto> 1, ''<UNK>'' \<mapsto> 2, ''<UNUSED>'' \<mapsto> 3)"

text \<open>\<^verbatim>\<open>d.get(key, default)\<close>\<close>

definition dict_get :: "('k \<rightharpoonup> 'v) \<Rightarrow> 'k \<Rightarrow> 'v \<Rightarrow> 'v" where
  "dict_get d k dflt = (case d k of None \<Rightarrow> dflt | Some v \<Rightarrow> v)"

text \<open>
  \<^verbatim>\<open>
  words = text.lower().split()
  sequence = [word_index.get(word, 2) for word in words] # Use 2 for unknown words
  \<close>
\<close>

definition words_of :: "string \<Rightarrow> string list" where
  "words_of text = str_split (str_lower text)"

definition sequence_of :: "(string \<rightharpoonup> int) \<Rightarrow> string \<Rightarrow> int list" where
  "sequence_of raw text = map (\<lambda>word. dict_get (word_index raw) word 2) (words_of text)"

section \<open>Padding\<close>

text \<open>
  Modelled from the spec: \<^verbatim>\<open>pad_sequences\<close> is a function of the external framework and
  is not part of the repository; the spec describes its result as
  "a fixed-shape rectangular array of reviews, each truncated or zero-padded (left-padded
  in the observed default) to exactly 200 tokens". The notebook calls it with
  \<^verbatim>\<open>maxlen\<close> only, so the framework's defaults apply: the array is first filled with the
  value 0, an empty sequence leaves its row as it is, a longer sequence is cut to its
  last \<open>maxlen\<close> tokens (\<^verbatim>\<open>s[-maxlen:]\<close>) and the tokens are written at the end of the
  row (\<^verbatim>\<open>x[idx, -len(trunc):] = trunc\<close>). The model is for \<open>maxlen > 0\<close> and for tokens
  that fit the array's 32-bit entries.
\<close>

definition pad_row :: "nat \<Rightarrow> int list \<Rightarrow> int list" where
  "pad_row n s =
     (let row = replicate n 0
      in if s = [] then row
         else let trunc = drop (length s - n) s
              in take (n - length trunc) row @ trunc)"

definition pad_sequences :: "int list list \<Rightarrow> nat \<Rightarrow> int list list" where
  "pad_sequences sequences n = map (pad_row n) sequences"

section \<open>\<open>predict_sentiment\<close>\<close>

text \<open>
  An exception is a value: \<open>FrameworkError\<close> is whatever \<^verbatim>\<open>model.predict\<close> raises,
  \<open>IndexError\<close> is what \<^verbatim>\<open>prediction[0][0]\<close> raises on an array without that entry.
\<close>

datatype error = FrameworkError | IndexError

datatype verdict = Positive_sentiment | Negative_sentiment

text \<open>What the function prints: the review, the probability and the result line.\<close>

record printed =
  review :: string
  probability :: real
  result :: verdict

text \<open>
  \<^verbatim>\<open>model.predict\<close> is the framework's; it is the parameter \<open>predict\<close>, from the padded
  batch to the array of predictions, and it may raise.
\<close>

type_synonym predict_fn = "int list list \<Rightarrow> error + real list list"

definition padded_sequence_of :: "(string \<rightharpoonup> int) \<Rightarrow> string \<Rightarrow> int list list" where
  "padded_sequence_of raw text = pad_sequences [sequence_of raw text] maxlen"

text \<open>\<^verbatim>\<open>prediction[0][0]\<close>\<close>

fun first_entry :: "real list list \<Rightarrow> error + real" where
  "first_entry ((p # ps) # rows) = Inr p"
| "first_entry rows = Inl IndexError"

text \<open>
  \<^verbatim>\<open>
  def predict_sentiment(text):
      words = text.lower().split()
      sequence = [word_index.get(word, 2) for word in words]
      padded_sequence = pad_sequences([sequence], maxlen=maxlen)
      prediction = model.predict(padded_sequence)
      probability = prediction[0][0]
      print(...)
      if probability > 0.5:
          print("Result: Positive sentiment")
      else:
          print("Result: Negative sentiment")
  \<close>
\<close>

definition predict_sentiment :: "(string \<rightharpoonup> int) \<Rightarrow> predict_fn \<Rightarrow> string \<Rightarrow> error + printed" where
  "predict_sentiment raw predict text =
     (let padded_sequence = padded_sequence_of raw text
      in case predict padded_sequence of
           Inl e \<Rightarrow> Inl e
         | Inr prediction \<Rightarrow>
             (case first_entry prediction of
                Inl e \<Rightarrow> Inl e
              | Inr p \<Rightarrow>
                  Inr \<lparr>review = text, probability = p,
                       result = (if p > 0.5 then Positive_sentiment else Negative_sentiment)\<rparr>))"

text \<open>
  An index is valid for the embedding table of \<^verbatim>\<open>Embedding(max_features, 128)\<close> when it
  names one of its \<open>max_features\<close> rows.
\<close>

definition valid_index :: "int \<Rightarrow> bool" where
  "valid_index i = (0 \<le> i \<and> i < int max_features)"

text \<open>
  Modelled from the spec: \<^verbatim>\<open>model.predict\<close> is the framework's and is not part of the
  repository. The spec describes the first layer as "a learned lookup table mapping
  discrete token indices to dense vectors", of \<open>max_features\<close> rows, and leaves every
  failure to the framework, "surfaced as whatever exception type that framework raises".
  So the lookup of an index that names no row of the table raises; otherwise the model,
  whose last layer has one unit, answers each row of the batch with one prediction, that
  of the trained network \<open>net\<close> on the row.
\<close>

definition checked_predict :: "(int list \<Rightarrow> real) \<Rightarrow> predict_fn" where
  "checked_predict net rows =
     (if list_all (list_all valid_index) rows then Inr (map (\<lambda>row. [net row]) rows)
      else Inl FrameworkError)"

section \<open>The pipeline of the notebook\<close>

text \<open>
  \<^verbatim>\<open>(x_train, y_train), (x_test, y_test) = imdb.load_data(num_words=max_features)\<close>:
  the loader and its data are external, so the loaded values are the initial state. The
  second cell rebinds the two lists of reviews and nothing else:
  \<^verbatim>\<open>
  x_train = pad_sequences(x_train, maxlen=maxlen)
  x_test = pad_sequences(x_test, maxlen=maxlen)
  \<close>
\<close>

record dataset =
  x_train :: "int list list"
  y_train :: "int list"
  x_test :: "int list list"
  y_test :: "int list"

record 'm session = dataset +
  model :: 'm
  score :: "(real \<times> real) option"

definition pad_cell :: "'m session \<Rightarrow> 'm session" where
  "pad_cell s =
     s\<lparr>x_train := pad_sequences (x_train s) maxlen,
       x_test := pad_sequences (x_test s) maxlen\<rparr>"

section \<open>The model\<close>

text \<open>
  \<^verbatim>\<open>
  model = Sequential()
  model.add(Embedding(max_features, 128))
  model.add(Bidirectional(LSTM(64)))
  model.add(Dense(1, activation='sigmoid'))
  \<close>
\<close>

datatype activation = Linear | Sigmoid

datatype layer =
    Embedding nat nat
  | LSTM nat
  | Bidirectional layer
  | Dense nat activation

definition model_layers :: "layer list" where
  "model_layers = [Embedding max_features 128, Bidirectional (LSTM 64), Dense 1 Sigmoid]"

text \<open>
  The number of features a layer produces for one input, from the number it receives.
  \<open>Bidirectional\<close> runs its layer forwards and backwards and, in its default merge mode,
  concatenates the two outputs.
\<close>

fun output_features :: "layer \<Rightarrow> nat \<Rightarrow> nat" where
  "output_features (Embedding rows d) n = d"
| "output_features (LSTM units) n = units"
| "output_features (Bidirectional l) n = output_features l n + output_features l n"
| "output_features (Dense units a) n = units"

text \<open>
  The number of parameters of a layer: the embedding table; the four gates of an LSTM, each
  with an input kernel, a recurrent kernel and a bias; two copies for the two directions;
  a kernel and a bias for the dense layer.
\<close>

fun param_count :: "layer \<Rightarrow> nat \<Rightarrow> nat" where
  "param_count (Embedding rows d) n = rows * d"
| "param_count (LSTM units) n = 4 * ((n + units) * units + units)"
| "param_count (Bidirectional l) n = param_count l n + param_count l n"
| "param_count (Dense units a) n = n * units + units"

text \<open>The features after a stack of layers, and the parameters of the stack, layer by layer.\<close>

fun stack_features :: "layer list \<Rightarrow> nat \<Rightarrow> nat" where
  "stack_features [] n = n"
| "stack_features (l # ls) n = stack_features ls (output_features l n)"

fun stack_params :: "layer list \<Rightarrow> nat \<Rightarrow> nat list" where
  "stack_params [] n = []"
| "stack_params (l # ls) n = param_count l n # stack_params ls (output_features l n)"

definition sigmoid :: "real \<Rightarrow> real" where
  "sigmoid x = 1 / (1 + exp (- x))"

fun activate :: "activation \<Rightarrow> real \<Rightarrow> real" where
  "activate Linear x = x"
| "activate Sigmoid x = sigmoid x"

text \<open>One unit of a dense layer: the activation of the weighted sum plus the bias.\<close>

definition dense_unit :: "activation \<Rightarrow> real list \<Rightarrow> real \<Rightarrow> real list \<Rightarrow> real" where
  "dense_unit a w b xs = activate a (sum_list (map2 (*) w xs) + b)"

section \<open>The preprocessing of \<open>predict_sentiment\<close> in the words of the specification\<close>

text \<open>
  The steps as the specification lists them: lower-case the text, split it on white space,
  map each word to its entry in the shifted word index with every unknown word mapped to 2,
  left-pad the sequence to length 200.
\<close>

definition spec_lookup :: "(string \<rightharpoonup> int) \<Rightarrow> string \<Rightarrow> int" where
  "spec_lookup raw word = (case raw word of None \<Rightarrow> 2 | Some v \<Rightarrow> v + 3)"

definition spec_sequence :: "(string \<rightharpoonup> int) \<Rightarrow> string \<Rightarrow> int list" where
  "spec_sequence raw text = map (spec_lookup raw) (str_split (str_lower text))"

definition spec_left_pad :: "nat \<Rightarrow> int list \<Rightarrow> int list" where
  "spec_left_pad n s = replicate (n - length s) 0 @ s"

definition spec_model_input :: "(string \<rightharpoonup> int) \<Rightarrow> string \<Rightarrow> int list list" where
  "spec_model_input raw text = [spec_left_pad 200 (spec_sequence raw text)]"

text \<open>The same with the cut of a sequence of more than 200 tokens to its last 200.\<close>

definition spec_pad_or_truncate :: "nat \<Rightarrow> int list \<Rightarrow> int list" where
  "spec_pad_or_truncate n s =
     (if length s \<le> n then spec_left_pad n s else drop (length s - n) s)"

text \<open>
  The reading of "no out-of-vocabulary handling in the repository's code": every token
  handed to the framework is the dictionary's own entry for its word.
\<close>

definition dictionary_entries_only :: "(string \<rightharpoonup> int) \<Rightarrow> string \<Rightarrow> bool" where
  "dictionary_entries_only raw text =
     list_all2 (\<lambda>word t. word_index raw word = Some t) (words_of text) (sequence_of raw text)"

text \<open>
  A word index in the shape of the downloaded one: words in lower case, ranked from 1 by
  frequency, far more than \<open>max_features\<close> of them.
\<close>

definition sample_index :: "string \<rightharpoonup> int" where
  "sample_index =
     map_of [(''the'', 1), (''and'', 2), (''a'', 3), (''movie'', 17), (''film'', 19),
             (''woods'', 1408), (''fawn'', 34701)]"

text \<open>
  Three stand-ins for \<^verbatim>\<open>model.predict\<close>, used to run \<open>predict_sentiment\<close> on concrete
  inputs: one answers every batch with the same single prediction, one does so for a
  batch of one row only, one returns an array without rows.
\<close>

definition constant_predict :: "real \<Rightarrow> predict_fn" where
  "constant_predict p rows = Inr [[p]]"

definition one_row_predict :: "real \<Rightarrow> predict_fn" where
  "one_row_predict p rows = (if length rows = 1 then Inr [[p]] else Inl FrameworkError)"

definition empty_predict :: predict_fn where
  "empty_predict rows = Inr []"

text \<open>A loaded session of two training reviews and one test review, the model a counter.\<close>

definition sample_session :: "nat session" where
  "sample_session =
     \<lparr>x_train = [[1, 14, 22], [1, 9]], y_train = [1, 0],
      x_test = [[1, 5]], y_test = [1],
      model = 0, score = None\<rparr>"

section \<open>Lower case and splitting\<close>

lemma not_isupper_lower_char: "\<not> isupper (lower_char c)"
  unfolding isupper_def lower_char_def Let_def by auto

lemma split_from_chars: "word \<in> set (split_from w s) \<Longrightarrow> set word \<subseteq> set w \<union> set s"
  by (induction s arbitrary: w) (fastforce split: if_splits)+

lemma split_from_spaces: "list_all isspace s \<Longrightarrow> split_from [] s = []"
  by (induction s) auto

lemma words_of_lower: "word \<in> set (words_of s) \<Longrightarrow> c \<in> set word \<Longrightarrow> \<not> isupper c"
  using split_from_chars [of word "[]" "str_lower s"] not_isupper_lower_char
  by (auto simp: words_of_def str_split_def str_lower_def)

lemma words_of_spaces: "list_all isspace s \<Longrightarrow> words_of s = []"
proof -
  assume sp: "list_all isspace s"
  have "\<not> isupper c" if "isspace c" for c
    using that unfolding isspace_def isupper_def Let_def by auto
  then have "str_lower s = s"
    unfolding str_lower_def using sp
    by (induction s) (auto simp: lower_char_def)
  then show ?thesis
    by (simp add: words_of_def str_split_def split_from_spaces sp)
qed

lemma isupper_reserved: "isupper CHR ''P''" "isupper CHR ''S''" "isupper CHR ''U''"
  by (simp_all add: isupper_def)

text \<open>No word of a lower-cased text is one of the four reserved keys.\<close>

lemma words_of_not_reserved:
  assumes "word \<in> set (words_of s)"
  shows "word \<noteq> ''<PAD>''" "word \<noteq> ''<START>''" "word \<noteq> ''<UNK>''" "word \<noteq> ''<UNUSED>''"
  using words_of_lower [OF assms, of "CHR ''P''"] words_of_lower [OF assms, of "CHR ''S''"]
    words_of_lower [OF assms, of "CHR ''U''"] isupper_reserved
  by auto

lemma word_index_words:
  "word \<in> set (words_of s) \<Longrightarrow> word_index raw word = map_option (\<lambda>v. v + 3) (raw word)"
  using words_of_not_reserved [of word s] by (simp add: word_index_def)

lemma lookup_words:
  "word \<in> set (words_of s) \<Longrightarrow> dict_get (word_index raw) word 2 = spec_lookup raw word"
  by (simp add: word_index_words dict_get_def spec_lookup_def split: option.splits)

lemma sequence_of_spec: "sequence_of raw s = spec_sequence raw s"
  using lookup_words
  by (simp add: sequence_of_def spec_sequence_def words_of_def [symmetric] cong: map_cong)

lemma length_sequence_of: "length (sequence_of raw s) = length (words_of s)"
  by (simp add: sequence_of_def)

lemma sequence_of_nth:
  "i < length (words_of s) \<Longrightarrow> sequence_of raw s ! i = spec_lookup raw (words_of s ! i)"
  using lookup_words [of "words_of s ! i" s raw] by (simp add: sequence_of_def)

text \<open>A text of \<open>n\<close> times the word \<open>a\<close> has \<open>n\<close> words.\<close>

lemma str_lower_repeated: "str_lower (concat (replicate n ''a '')) = concat (replicate n ''a '')"
  by (induction n) (simp_all add: str_lower_def lower_char_def isupper_def)

lemma split_from_repeated: "split_from [] (concat (replicate n ''a '')) = replicate n ''a''"
  by (induction n) (simp_all add: isspace_def)

lemma words_of_repeated: "words_of (concat (replicate n ''a '')) = replicate n ''a''"
  by (simp add: words_of_def str_split_def str_lower_repeated split_from_repeated)

section \<open>Padding\<close>

lemma length_pad_row: "0 < n \<Longrightarrow> length (pad_row n s) = n"
  by (auto simp: pad_row_def Let_def)

lemma pad_row_short: "length s \<le> n \<Longrightarrow> pad_row n s = replicate (n - length s) 0 @ s"
  by (auto simp: pad_row_def Let_def)

lemma pad_row_long: "n < length s \<Longrightarrow> pad_row n s = drop (length s - n) s"
  by (auto simp: pad_row_def Let_def)

lemma pad_row_spec: "pad_row n s = spec_pad_or_truncate n s"
  by (auto simp: pad_row_def Let_def spec_pad_or_truncate_def spec_left_pad_def)

lemma length_pad_sequences: "length (pad_sequences seqs n) = length seqs"
  by (simp add: pad_sequences_def)

lemma pad_sequences_rows: "0 < n \<Longrightarrow> row \<in> set (pad_sequences seqs n) \<Longrightarrow> length row = n"
  by (auto simp: pad_sequences_def length_pad_row)

lemma pad_sequences_nth: "i < length seqs \<Longrightarrow> pad_sequences seqs n ! i = pad_row n (seqs ! i)"
  by (simp add: pad_sequences_def)

lemma padded_sequence_of_row: "padded_sequence_of raw s = [pad_row maxlen (sequence_of raw s)]"
  by (simp add: padded_sequence_of_def pad_sequences_def)

section \<open>Indexing the prediction\<close>

lemma first_entry_error: "first_entry prediction = Inl e \<Longrightarrow> e = IndexError"
  by (cases prediction rule: first_entry.cases) simp_all

section \<open>The padded batch\<close>

text \<open>
  Claim C1. Every list of token sequences that goes through the padding step with
  \<open>maxlen = 200\<close> comes out with as many rows as it had sequences, every row of exactly
  200 entries: a sequence of at most 200 tokens is extended with zeros on the left, a
  longer one is cut to 200 tokens (its last 200). This holds for the two padded lists of
  the data cell and for the single row that \<open>predict_sentiment\<close> builds.
\<close>

theorem pad_sequences_rectangular:
  "length (pad_sequences seqs maxlen) = length seqs \<and>
   (\<forall>i<length seqs.
      length (pad_sequences seqs maxlen ! i) = 200 \<and>
      (length (seqs ! i) \<le> 200 \<longrightarrow>
         pad_sequences seqs maxlen ! i = replicate (200 - length (seqs ! i)) 0 @ seqs ! i) \<and>
      (200 < length (seqs ! i) \<longrightarrow>
         pad_sequences seqs maxlen ! i = drop (length (seqs ! i) - 200) (seqs ! i))) \<and>
   (\<forall>row\<in>set (x_train (pad_cell s)). length row = 200) \<and>
   (\<forall>row\<in>set (x_test (pad_cell s)). length row = 200) \<and>
   length (padded_sequence_of raw inp) = 1 \<and>
   (\<forall>row\<in>set (padded_sequence_of raw inp). length row = 200)"
proof -
  have m: "maxlen = 200" by (simp add: maxlen_def)
  have rows: "\<forall>i<length seqs.
      length (pad_sequences seqs maxlen ! i) = 200 \<and>
      (length (seqs ! i) \<le> 200 \<longrightarrow>
         pad_sequences seqs maxlen ! i = replicate (200 - length (seqs ! i)) 0 @ seqs ! i) \<and>
      (200 < length (seqs ! i) \<longrightarrow>
         pad_sequences seqs maxlen ! i = drop (length (seqs ! i) - 200) (seqs ! i))"
    by (simp add: pad_sequences_nth m length_pad_row pad_row_short pad_row_long)
  have cells: "\<forall>row\<in>set (x_train (pad_cell s)). length row = 200"
    "\<forall>row\<in>set (x_test (pad_cell s)). length row = 200"
    using pad_sequences_rows [of 200] by (auto simp: pad_cell_def m)
  have one: "length (padded_sequence_of raw inp) = 1"
    "\<forall>row\<in>set (padded_sequence_of raw inp). length row = 200"
    by (simp_all add: padded_sequence_of_row m length_pad_row)
  show ?thesis
    using rows cells one by (simp add: length_pad_sequences)
qed

text \<open>On a short sequence, on one of 250 tokens and on a sentence.\<close>

theorem pad_sequences_rectangular_witness:
  "pad_sequences [[1, 2, 3], []] maxlen ! 0 = replicate 197 0 @ [1, 2, 3] \<and>
   length (pad_sequences [replicate 250 7] maxlen ! 0) = 200 \<and>
   pad_sequences [replicate 250 7] maxlen ! 0 = drop 50 (replicate 250 7) \<and>
   length (padded_sequence_of sample_index ''a film'') = 1"
  using pad_sequences_rectangular [of "[[1, 2, 3], []]" sample_session sample_index "''a film''"]
    pad_sequences_rectangular [of "[replicate 250 7]" sample_session sample_index "''a film''"]
  by simp

section \<open>The model input of \<open>predict_sentiment\<close>\<close>

text \<open>
  A text of 201 words: the padded row of the code has 200 tokens, the left-padded sequence
  of the specification's steps has 201.
\<close>

theorem left_pad_counterexample:
  "padded_sequence_of sample_index (concat (replicate 201 ''a '')) \<noteq>
   spec_model_input sample_index (concat (replicate 201 ''a ''))"
proof -
  have "length (sequence_of sample_index (concat (replicate 201 ''a ''))) = 201"
    by (simp add: length_sequence_of words_of_repeated)
  then have "length (hd (spec_model_input sample_index (concat (replicate 201 ''a '')))) = 201"
    by (simp add: spec_model_input_def spec_left_pad_def sequence_of_spec)
  moreover have "length (hd (padded_sequence_of sample_index (concat (replicate 201 ''a '')))) = 200"
    by (simp add: padded_sequence_of_row length_pad_row maxlen_def)
  ultimately show ?thesis
    by auto
qed

text \<open>
  Claim C3, amended. For every text, the batch that \<open>predict_sentiment\<close> builds is the one
  row obtained by lower-casing the text, splitting it on white space, mapping each word to
  its entry of the shifted word index (2 for an unknown word), and then left-padding the
  sequence with zeros to length 200 or, when it has more than 200 tokens, keeping its last
  200. For a text of at most 200 words that is the left-padded row. The framework's
  \<open>predict\<close> is called on that batch only: two \<open>predict\<close> functions that agree on it give
  the same result.
\<close>

theorem predict_sentiment_input:
  "padded_sequence_of raw inp = [spec_pad_or_truncate 200 (spec_sequence raw inp)] \<and>
   (length (spec_sequence raw inp) \<le> 200 \<longrightarrow> padded_sequence_of raw inp = spec_model_input raw inp) \<and>
   (predict1 (padded_sequence_of raw inp) = predict2 (padded_sequence_of raw inp) \<longrightarrow>
      predict_sentiment raw predict1 inp = predict_sentiment raw predict2 inp)"
  by (simp add: padded_sequence_of_row pad_row_spec sequence_of_spec maxlen_def
      predict_sentiment_def spec_model_input_def spec_pad_or_truncate_def)

text \<open>On a two-word sentence, with two stand-ins that agree on batches of one row.\<close>

theorem predict_sentiment_input_witness:
  "padded_sequence_of sample_index ''The  film'' = [replicate 198 0 @ [4, 22]] \<and>
   predict_sentiment sample_index (constant_predict (9 / 10)) ''The  film'' =
     predict_sentiment sample_index (one_row_predict (9 / 10)) ''The  film''"
proof -
  have len: "length (spec_sequence sample_index ''The  film'') \<le> 200"
    by code_simp
  have row: "spec_model_input sample_index ''The  film'' = [replicate 198 0 @ [4, 22]]"
    by code_simp
  have agree: "constant_predict (9 / 10) (padded_sequence_of sample_index ''The  film'') =
      one_row_predict (9 / 10) (padded_sequence_of sample_index ''The  film'')"
    by (simp add: constant_predict_def one_row_predict_def padded_sequence_of_row)
  note input = predict_sentiment_input [of sample_index "''The  film''"
      "constant_predict (9 / 10)" "one_row_predict (9 / 10)"]
  from input len have a: "padded_sequence_of sample_index ''The  film'' =
      spec_model_input sample_index ''The  film''"
    by blast
  from input agree have b: "predict_sentiment sample_index (constant_predict (9 / 10)) ''The  film'' =
      predict_sentiment sample_index (one_row_predict (9 / 10)) ''The  film''"
    by blast
  show ?thesis
    using a b row by simp
qed

text \<open>
  Claim C2. Every index fed to the embedding layer should be below \<open>max_features\<close>. The
  lookup of \<open>predict_sentiment\<close> does not cap the shifted rank: a word of rank 34701
  becomes the token 34704, which is no row of the table of 10000 rows, and it reaches the
  padded row unchanged.
\<close>

theorem lookup_exceeds_embedding_table:
  "sequence_of sample_index ''A fawn'' = [6, 34704] \<and>
   \<not> valid_index 34704 \<and>
   padded_sequence_of sample_index ''A fawn'' = [replicate 198 0 @ [6, 34704]] \<and>
   \<not> list_all valid_index (concat (padded_sequence_of sample_index ''A fawn''))"
proof -
  have s: "sequence_of sample_index ''A fawn'' = [6, 34704]"
    by code_simp
  have v: "\<not> valid_index 34704"
    by (simp add: valid_index_def max_features_def)
  have p: "padded_sequence_of sample_index ''A fawn'' = [replicate 198 0 @ [6, 34704]]"
    by (simp add: padded_sequence_of_row s pad_row_short maxlen_def)
  show ?thesis
    using v by (simp add: s p)
qed

section \<open>Unknown words and errors\<close>

text \<open>
  The word \<open>zzz\<close> is not in the word index, and the sequence built by the repository's own
  code holds the token 2 for it: not every token is an entry of the dictionary.
\<close>

theorem unknown_word_counterexample:
  "\<not> dictionary_entries_only sample_index ''the zzz''"
  by code_simp

text \<open>
  Claim C4, amended. The repository's code handles no error. Whatever \<open>predict\<close> raises
  is what \<open>predict_sentiment\<close> raises; when the prediction has no first entry, the
  \<open>IndexError\<close> of the indexing is what it raises; when the prediction has a first entry
  it prints its result; and it raises nothing else: every error it returns is the one
  \<open>predict\<close> raised or the \<open>IndexError\<close> of indexing an answer without a first entry.
  Unknown words, however, are handled by the repository's own code, before the framework
  is called: the sequence has one token for each word, 2 for a word that the downloaded
  index does not have and the rank plus 3 for a word that it has.
\<close>

theorem unknown_words_handled_by_lookup:
  "length (sequence_of raw inp) = length (words_of inp) \<and>
   (\<forall>i<length (words_of inp).
      (raw (words_of inp ! i) = None \<longrightarrow> sequence_of raw inp ! i = 2) \<and>
      (\<forall>v. raw (words_of inp ! i) = Some v \<longrightarrow> sequence_of raw inp ! i = v + 3)) \<and>
   (predict (padded_sequence_of raw inp) = Inl e \<longrightarrow> predict_sentiment raw predict inp = Inl e) \<and>
   (predict (padded_sequence_of raw inp) = Inr prediction \<and> first_entry prediction = Inl e \<longrightarrow>
      e = IndexError \<and> predict_sentiment raw predict inp = Inl e) \<and>
   (predict (padded_sequence_of raw inp) = Inr ((p # ps) # rows) \<longrightarrow>
      predict_sentiment raw predict inp =
        Inr \<lparr>review = inp, probability = p,
             result = (if 1 / 2 < p then Positive_sentiment else Negative_sentiment)\<rparr>) \<and>
   (predict_sentiment raw predict inp = Inl e \<longrightarrow>
      predict (padded_sequence_of raw inp) = Inl e \<or>
      (e = IndexError \<and>
       (\<exists>answer. predict (padded_sequence_of raw inp) = Inr answer \<and>
          first_entry answer = Inl IndexError)))"
proof -
  have tokens: "\<forall>i<length (words_of inp).
      (raw (words_of inp ! i) = None \<longrightarrow> sequence_of raw inp ! i = 2) \<and>
      (\<forall>v. raw (words_of inp ! i) = Some v \<longrightarrow> sequence_of raw inp ! i = v + 3)"
    by (simp add: sequence_of_nth spec_lookup_def)
  have framework: "predict_sentiment raw predict inp = Inl e"
    if "predict (padded_sequence_of raw inp) = Inl e"
    using that by (simp add: predict_sentiment_def)
  have indexing: "e = IndexError \<and> predict_sentiment raw predict inp = Inl e"
    if "predict (padded_sequence_of raw inp) = Inr prediction \<and> first_entry prediction = Inl e"
    using that first_entry_error [of prediction e] by (simp add: predict_sentiment_def)
  have success: "predict_sentiment raw predict inp =
        Inr \<lparr>review = inp, probability = p,
             result = (if 1 / 2 < p then Positive_sentiment else Negative_sentiment)\<rparr>"
    if "predict (padded_sequence_of raw inp) = Inr ((p # ps) # rows)"
    using that by (simp add: predict_sentiment_def)
  have origin: "predict (padded_sequence_of raw inp) = Inl e \<or>
      (e = IndexError \<and>
       (\<exists>answer. predict (padded_sequence_of raw inp) = Inr answer \<and>
          first_entry answer = Inl IndexError))"
    if "predict_sentiment raw predict inp = Inl e"
    using that
    by (auto simp: predict_sentiment_def split: sum.splits dest: first_entry_error)
  show ?thesis
    using tokens framework indexing success origin
    by (simp add: length_sequence_of)
qed

text \<open>
  On a known and an unknown word, with a \<open>predict\<close> that raises, one that returns an
  array without rows and one that returns a prediction.
\<close>

theorem unknown_words_handled_by_lookup_witness:
  "sequence_of sample_index ''the zzz'' ! 1 = 2 \<and>
   sequence_of sample_index ''the zzz'' ! 0 = 4 \<and>
   predict_sentiment sample_index (one_row_predict (1 / 4) \<circ> tl) ''the zzz'' = Inl FrameworkError \<and>
   predict_sentiment sample_index empty_predict ''the zzz'' = Inl IndexError \<and>
   predict_sentiment sample_index (constant_predict (3 / 4)) ''the zzz'' =
     Inr \<lparr>review = ''the zzz'', probability = 3 / 4, result = Positive_sentiment\<rparr>"
proof -
  have w: "words_of ''the zzz'' = [''the'', ''zzz'']"
    by code_simp
  have r: "sample_index ''zzz'' = None" "sample_index ''the'' = Some 1"
    by (simp_all add: sample_index_def)
  have f: "(one_row_predict (1 / 4) \<circ> tl) (padded_sequence_of sample_index ''the zzz'') =
      Inl FrameworkError"
    by (simp add: one_row_predict_def padded_sequence_of_row)
  have x: "empty_predict (padded_sequence_of sample_index ''the zzz'') = Inr [] \<and>
      first_entry [] = Inl IndexError"
    by (simp add: empty_predict_def)
  have k: "constant_predict (3 / 4) (padded_sequence_of sample_index ''the zzz'') =
      Inr (((3 / 4) # []) # [])"
    by (simp add: constant_predict_def)
  note handled = unknown_words_handled_by_lookup [where raw = sample_index and inp = "''the zzz''"]
  have i: "(0::nat) < length (words_of ''the zzz'')" "(1::nat) < length (words_of ''the zzz'')"
    by (simp_all add: w)
  from handled i(2) r(1) have a: "sequence_of sample_index ''the zzz'' ! 1 = 2"
    by (simp add: w)
  from handled i(1) r(2) have b: "sequence_of sample_index ''the zzz'' ! 0 = 4"
    by (simp add: w)
  from handled [where predict = "one_row_predict (1 / 4) \<circ> tl" and e = FrameworkError] f
  have c: "predict_sentiment sample_index (one_row_predict (1 / 4) \<circ> tl) ''the zzz'' =
      Inl FrameworkError"
    by blast
  from handled [where predict = empty_predict and e = IndexError and prediction = "[]"] x
  have d: "predict_sentiment sample_index empty_predict ''the zzz'' = Inl IndexError"
    by blast
  from handled [where predict = "constant_predict (3 / 4)" and p = "3 / 4" and ps = "[]" and rows = "[]"] k
  have e: "predict_sentiment sample_index (constant_predict (3 / 4)) ''the zzz'' =
     Inr \<lparr>review = ''the zzz'', probability = 3 / 4, result = Positive_sentiment\<rparr>"
    by simp
  show ?thesis
    using a b c d e by simp
qed

section \<open>The layers\<close>

lemma sigmoid_range: "0 < sigmoid x" "sigmoid x < 1"
proof -
  have "0 < exp (- x)" by simp
  then show "0 < sigmoid x" "sigmoid x < 1"
    by (simp_all add: sigmoid_def add_pos_pos)
qed

text \<open>
  Claim C5. The model is exactly three layers in this order: an embedding with a table of
  10000 rows of 128 entries, a bidirectional LSTM of 64 units in each direction whose two
  outputs are concatenated to 64 + 64 = 128 features, and a dense layer of one unit with
  the sigmoid activation, whose output is between 0 and 1. The parameter counts of the
  three layers are those of the summary the notebook prints: 1280000, 98816 and 129.
\<close>

theorem model_structure:
  "model_layers = [Embedding 10000 128, Bidirectional (LSTM 64), Dense 1 Sigmoid] \<and>
   length model_layers = 3 \<and>
   output_features (model_layers ! 0) n = 128 \<and>
   output_features (LSTM 64) 128 = 64 \<and>
   output_features (model_layers ! 1) 128 = 64 + 64 \<and>
   output_features (model_layers ! 2) 128 = 1 \<and>
   stack_features model_layers n = 1 \<and>
   stack_params model_layers n = [1280000, 98816, 129] \<and>
   0 \<le> dense_unit Sigmoid w b xs \<and> dense_unit Sigmoid w b xs \<le> 1"
proof -
  have range: "0 \<le> dense_unit Sigmoid w b xs \<and> dense_unit Sigmoid w b xs \<le> 1"
    using sigmoid_range [of "sum_list (map2 (*) w xs) + b"]
    by (simp add: dense_unit_def)
  have shape: "model_layers = [Embedding 10000 128, Bidirectional (LSTM 64), Dense 1 Sigmoid]"
    by (simp add: model_layers_def max_features_def)
  show ?thesis
    using range by (simp add: shape)
qed

section \<open>The result line\<close>

text \<open>
  Claim C8. When the framework returns a prediction whose first entry is \<open>p\<close>,
  \<open>predict_sentiment\<close> prints \<open>p\<close> as the probability and reports positive sentiment
  exactly when \<open>p\<close> is strictly greater than 0.5; at exactly 0.5 it reports negative
  sentiment.
\<close>

theorem verdict_threshold:
  "predict (padded_sequence_of raw inp) = Inr ((p # ps) # rows) \<Longrightarrow>
   \<exists>out. predict_sentiment raw predict inp = Inr out \<and> probability out = p \<and>
     (result out = Positive_sentiment \<longleftrightarrow> 1 / 2 < p) \<and>
     (p = 1 / 2 \<longrightarrow> result out = Negative_sentiment)"
  by (simp add: predict_sentiment_def)

text \<open>On a prediction of exactly one half.\<close>

theorem verdict_threshold_witness:
  "\<exists>out. predict_sentiment sample_index (constant_predict (1 / 2)) ''a film'' = Inr out \<and>
     probability out = 1 / 2 \<and> result out = Negative_sentiment"
proof -
  have h: "constant_predict (1 / 2) (padded_sequence_of sample_index ''a film'') =
      Inr (((1 / 2) # []) # [])"
    by (simp add: constant_predict_def)
  show ?thesis
    using verdict_threshold [of "constant_predict (1 / 2)" sample_index "''a film''" "1 / 2" "[]" "[]"] h
    by auto
qed

section \<open>Reserved indices\<close>

text \<open>
  Claim C9. The ranks of the downloaded word index start at 1. Then, for every text, the
  sequence built before padding has one token for each word (no start token is
  prepended), every token is 2 or at least 4, and 0, 1 and 3 do not occur in it.
\<close>

theorem no_reserved_tokens:
  assumes "\<forall>word v. raw word = Some v \<longrightarrow> 1 \<le> v"
  shows "length (sequence_of raw inp) = length (words_of inp) \<and>
    (\<forall>t\<in>set (sequence_of raw inp). t = 2 \<or> 4 \<le> t) \<and>
    0 \<notin> set (sequence_of raw inp) \<and> 1 \<notin> set (sequence_of raw inp) \<and>
    3 \<notin> set (sequence_of raw inp)"
proof -
  have tok: "t = 2 \<or> 4 \<le> t" if "t \<in> set (sequence_of raw inp)" for t
  proof -
    from that obtain word where "t = spec_lookup raw word"
      by (auto simp: sequence_of_spec spec_sequence_def)
    then show ?thesis
      using assms by (cases "raw word") (auto simp: spec_lookup_def)
  qed
  then show ?thesis
    by (fastforce simp: length_sequence_of)
qed

text \<open>On a sentence that spells two of the reserved keys.\<close>

theorem no_reserved_tokens_witness:
  "sequence_of sample_index ''<START> The <PAD> woods'' = [2, 4, 2, 1411] \<and>
   1 \<notin> set (sequence_of sample_index ''<START> The <PAD> woods'')"
proof -
  have h: "\<forall>word v. sample_index word = Some v \<longrightarrow> 1 \<le> v"
    by (auto simp: sample_index_def split: if_splits)
  have e: "sequence_of sample_index ''<START> The <PAD> woods'' = [2, 4, 2, 1411]"
    by code_simp
  show ?thesis
    using no_reserved_tokens [OF h, of "''<START> The <PAD> woods''"] e by simp
qed

section \<open>Totality\<close>

text \<open>
  What does hold: padding keeps valid indices valid, so \<open>predict_sentiment\<close> returns its
  printed result on every text whose tokens are all rows of the embedding table; a text
  that is empty or only white space has no token, gives one row of 200 zeros and a result.
\<close>

lemma pad_row_valid: "list_all valid_index s \<Longrightarrow> list_all valid_index (pad_row n s)"
proof -
  assume v: "list_all valid_index s"
  have z: "valid_index 0"
    by (simp add: valid_index_def max_features_def)
  have "set (pad_row n s) \<subseteq> insert 0 (set s)"
    by (auto simp: pad_row_def Let_def dest: in_set_dropD in_set_takeD)
  then show ?thesis
    using v z by (auto simp: list_all_iff)
qed

lemma predict_sentiment_returns:
  "list_all valid_index (sequence_of raw inp) \<Longrightarrow>
   \<exists>out. predict_sentiment raw (checked_predict net) inp = Inr out"
  using pad_row_valid [of "sequence_of raw inp" maxlen]
  by (simp add: predict_sentiment_def checked_predict_def padded_sequence_of_row)

lemma blank_text_batch:
  "list_all isspace inp \<Longrightarrow>
   sequence_of raw inp = [] \<and> padded_sequence_of raw inp = [replicate 200 0] \<and>
   (\<exists>out. predict_sentiment raw (checked_predict net) inp = Inr out)"
proof -
  assume sp: "list_all isspace inp"
  have e: "sequence_of raw inp = []"
    using words_of_spaces [OF sp] by (simp add: sequence_of_def)
  then have "padded_sequence_of raw inp = [replicate 200 0]"
    by (simp add: padded_sequence_of_row pad_row_def maxlen_def)
  moreover have "\<exists>out. predict_sentiment raw (checked_predict net) inp = Inr out"
    using predict_sentiment_returns [of raw inp net] e by simp
  ultimately show ?thesis
    using e by simp
qed

lemma padded_a_fawn: "padded_sequence_of sample_index ''A fawn'' = [replicate 198 0 @ [6, 34704]]"
proof -
  have "sequence_of sample_index ''A fawn'' = [6, 34704]"
    by code_simp
  then show ?thesis
    by (simp add: padded_sequence_of_row pad_row_short maxlen_def)
qed

text \<open>
  Claim C10. \<open>predict_sentiment\<close> should return a result on every input string. On a
  text with a word of rank 34701 the token 34704 reaches the embedding lookup, which has
  no such row, and the call raises instead of printing a prediction, whatever the trained
  network is. It is the missing cap of claim C2.
\<close>

theorem predict_sentiment_raises_on_rare_word:
  "predict_sentiment sample_index (checked_predict net) ''A fawn'' = Inl FrameworkError"
  by (simp add: predict_sentiment_def checked_predict_def padded_a_fawn valid_index_def
      max_features_def)

end
